theory Spec2Isabelle
  imports Complex_Main "HOL-Library.Log_Nat"
begin

section \<open>Python values\<close>

subsection \<open>Binary64 floats\<close>

text \<open>
  A Python \<open>float\<close> is an IEEE 754 binary64 number. A finite one is represented by the
  rational it denotes; the two zeros are identified (no operation reachable from the
  two evaluation contexts distinguishes them: a zero divisor raises whatever its sign).
  Arithmetic rounds to nearest, ties to even, as the hardware does.
\<close>

datatype pyfloat = Fin rat | PInf | NInf | NaN

definition pow2 :: "int \<Rightarrow> rat" where
  "pow2 k = (if 0 \<le> k then 2 ^ nat k else 1 / 2 ^ nat (- k))"

definition round_half_even :: "rat \<Rightarrow> int" where
  "round_half_even q =
     (let f = \<lfloor>q\<rfloor>; r = q - of_int f
      in if r < 1 / 2 then f else if 1 / 2 < r then f + 1
         else if even f then f else f + 1)"

text \<open>\<open>ilog2 q\<close> is \<open>\<lfloor>log\<^sub>2 q\<rfloor>\<close> for a positive rational \<open>q\<close>.\<close>

definition ilog2 :: "rat \<Rightarrow> int" where
  "ilog2 q =
     (if 1 \<le> q then bitlen \<lfloor>q\<rfloor> - 1
      else let j = bitlen \<lfloor>1 / q\<rfloor> - 1
           in if q = pow2 (- j) then - j else - j - 1)"

text \<open>
  Rounding of an exact result to binary64: 53 significant bits, exponent at least
  \<open>-1022\<close> (subnormals below), overflow to infinity from \<open>2\<^sup>1\<^sup>0\<^sup>2\<^sup>4\<close>.
\<close>

definition round64 :: "rat \<Rightarrow> pyfloat" where
  "round64 q =
     (if q = 0 then Fin 0
      else let a = \<bar>q\<bar>;
               e = max (ilog2 a) (- 1022) - 52;
               v = of_int (round_half_even (a / pow2 e)) * pow2 e
           in if pow2 1024 \<le> v then (if 0 < q then PInf else NInf)
              else Fin (if 0 < q then v else - v))"


fun isnan :: "pyfloat \<Rightarrow> bool" where
  "isnan NaN = True"
| "isnan (Fin q) = False"
| "isnan PInf = False"
| "isnan NInf = False"

fun isinf :: "pyfloat \<Rightarrow> bool" where
  "isinf PInf = True"
| "isinf NInf = True"
| "isinf (Fin q) = False"
| "isinf NaN = False"

fun float_neg :: "pyfloat \<Rightarrow> pyfloat" where
  "float_neg (Fin q) = Fin (- q)"
| "float_neg PInf = NInf"
| "float_neg NInf = PInf"
| "float_neg NaN = NaN"

fun float_add :: "pyfloat \<Rightarrow> pyfloat \<Rightarrow> pyfloat" where
  "float_add NaN y = NaN"
| "float_add x NaN = NaN"
| "float_add (Fin a) (Fin b) = round64 (a + b)"
| "float_add PInf NInf = NaN"
| "float_add NInf PInf = NaN"
| "float_add PInf y = PInf"
| "float_add NInf y = NInf"
| "float_add (Fin a) y = y"

definition float_sub :: "pyfloat \<Rightarrow> pyfloat \<Rightarrow> pyfloat" where
  "float_sub x y = float_add x (float_neg y)"

text \<open>The sign of a float: \<open>1\<close>, \<open>-1\<close>, or \<open>0\<close> for zero and NaN.\<close>

fun float_sgn :: "pyfloat \<Rightarrow> int" where
  "float_sgn (Fin q) = (if 0 < q then 1 else if q < 0 then - 1 else 0)"
| "float_sgn PInf = 1"
| "float_sgn NInf = - 1"
| "float_sgn NaN = 0"

definition signed_inf :: "int \<Rightarrow> pyfloat" where
  "signed_inf s = (if 0 < s then PInf else if s < 0 then NInf else NaN)"

fun float_mul :: "pyfloat \<Rightarrow> pyfloat \<Rightarrow> pyfloat" where
  "float_mul NaN y = NaN"
| "float_mul x NaN = NaN"
| "float_mul (Fin a) (Fin b) = round64 (a * b)"
| "float_mul x y = signed_inf (float_sgn x * float_sgn y)"

text \<open>Division by a divisor that is not zero (Python raises before dividing by zero).\<close>

fun float_div :: "pyfloat \<Rightarrow> pyfloat \<Rightarrow> pyfloat" where
  "float_div NaN y = NaN"
| "float_div x NaN = NaN"
| "float_div (Fin a) (Fin b) = round64 (a / b)"
| "float_div (Fin a) y = Fin 0"
| "float_div x (Fin b) = signed_inf (float_sgn x * float_sgn (Fin b))"
| "float_div x y = NaN"

text \<open>Comparison \<open><\<close> of floats; every comparison with NaN is false.\<close>

fun float_less :: "pyfloat \<Rightarrow> pyfloat \<Rightarrow> bool" where
  "float_less NaN y = False"
| "float_less x NaN = False"
| "float_less (Fin a) (Fin b) = (a < b)"
| "float_less NInf NInf = False"
| "float_less NInf y = True"
| "float_less x PInf = (x \<noteq> PInf)"
| "float_less x y = False"

subsection \<open>Exceptions\<close>

text \<open>
  An exception is its class and its message. \<open>Unmodelled\<close> is not a Python exception:
  it marks an input on which this model of the interpreter does not say what Python
  does (syntax or library functions outside the fragment below).
\<close>

datatype exc_class =
  ValueError | ZeroDivisionError | SyntaxError | NameError | TypeError | OverflowError

datatype pyexc = Raise exc_class string | Unmodelled

subsection \<open>Objects\<close>

datatype builtin = B_abs | B_round | B_min | B_max | B_sqrt | B_sin | B_cos | B_tan

datatype pyval = VInt int | VFloat pyfloat | VFunc builtin

type_synonym pycontext = "string \<rightharpoonup> pyval"

text \<open>\<open>float(n)\<close> for an \<open>int\<close>: rounded, and an error when it does not fit.\<close>

definition int_to_float :: "int \<Rightarrow> pyexc + pyfloat" where
  "int_to_float n =
     (case round64 (of_int n) of
        Fin q \<Rightarrow> Inr (Fin q)
      | _ \<Rightarrow> Inl (Raise OverflowError ''int too large to convert to float''))"

section \<open>Strings and regular-expression substitutions\<close>

text \<open>
  A Python \<open>str\<close> is a sequence of code points. The model covers the code points
  below 256, one \<open>char\<close> each: the multiplication sign is U+00D7 and the division
  sign U+00F7.
\<close>

definition times_sign :: char where
  "times_sign = CHR 0xD7"

definition division_sign :: char where
  "division_sign = CHR 0xF7"

text \<open>\<open>\d\<close> and \<open>\s\<close> of \<open>re\<close>, and the characters \<open>str.strip\<close> removes.\<close>

definition is_digit :: "char \<Rightarrow> bool" where
  "is_digit c = (c \<in> set ''0123456789'')"

definition is_space :: "char \<Rightarrow> bool" where
  "is_space c =
     (c \<in> set [CHR 0x09, CHR 0x0A, CHR 0x0B, CHR 0x0C, CHR 0x0D, CHR 0x1C, CHR 0x1D,
                CHR 0x1E, CHR 0x1F, CHR 0x20, CHR 0x85, CHR 0xA0])"

definition strip :: "string \<Rightarrow> string" where
  "strip s = rev (dropWhile is_space (rev (dropWhile is_space s)))"

definition lstrip_char :: "char \<Rightarrow> string \<Rightarrow> string" where
  "lstrip_char c s = dropWhile (\<lambda>d. d = c) s"

text \<open>
  \<open>str.lower\<close> on code points below 256: the letters \<open>A\<close> to \<open>Z\<close> and the
  upper-case letters U+00C0 to U+00DE (U+00D7 is the multiplication sign, not a letter).
\<close>

definition upper_chars :: string where
  "upper_chars = ''ABCDEFGHIJKLMNOPQRSTUVWXYZ''
       @ [CHR 0xC0, CHR 0xC1, CHR 0xC2, CHR 0xC3, CHR 0xC4, CHR 0xC5, CHR 0xC6, CHR 0xC7,
          CHR 0xC8, CHR 0xC9, CHR 0xCA, CHR 0xCB, CHR 0xCC, CHR 0xCD, CHR 0xCE, CHR 0xCF,
          CHR 0xD0, CHR 0xD1, CHR 0xD2, CHR 0xD3, CHR 0xD4, CHR 0xD5, CHR 0xD6, CHR 0xD8,
          CHR 0xD9, CHR 0xDA, CHR 0xDB, CHR 0xDC, CHR 0xDD, CHR 0xDE]"

definition lower_chars :: string where
  "lower_chars = ''abcdefghijklmnopqrstuvwxyz''
       @ [CHR 0xE0, CHR 0xE1, CHR 0xE2, CHR 0xE3, CHR 0xE4, CHR 0xE5, CHR 0xE6, CHR 0xE7,
          CHR 0xE8, CHR 0xE9, CHR 0xEA, CHR 0xEB, CHR 0xEC, CHR 0xED, CHR 0xEE, CHR 0xEF,
          CHR 0xF0, CHR 0xF1, CHR 0xF2, CHR 0xF3, CHR 0xF4, CHR 0xF5, CHR 0xF6, CHR 0xF8,
          CHR 0xF9, CHR 0xFA, CHR 0xFB, CHR 0xFC, CHR 0xFD, CHR 0xFE]"

definition lower_char :: "char \<Rightarrow> char" where
  "lower_char c = (case map_of (zip upper_chars lower_chars) c of Some d \<Rightarrow> d | None \<Rightarrow> c)"

definition lower :: "string \<Rightarrow> string" where
  "lower s = map lower_char s"

definition startswith :: "string \<Rightarrow> string \<Rightarrow> bool" where
  "startswith s p = (take (length p) s = p)"

text \<open>\<open>s.replace(c, r)\<close> for a one-character \<open>c\<close>; \<open>re.sub(r'\^', '**', s)\<close> is the same.\<close>

definition replace_char :: "char \<Rightarrow> string \<Rightarrow> string \<Rightarrow> string" where
  "replace_char c r s = concat (map (\<lambda>d. if d = c then r else [d]) s)"

text \<open>
  \<open>re.sub(r'(A)(B)', r'\1*\2', s)\<close> for one-character classes \<open>A\<close> and \<open>B\<close>: the
  matches are found left to right and do not overlap, the scan resuming after a match.
\<close>

fun sub_pair :: "(char \<Rightarrow> bool) \<Rightarrow> (char \<Rightarrow> bool) \<Rightarrow> string \<Rightarrow> string" where
  "sub_pair A B (a # b # cs) =
     (if A a \<and> B b then a # CHR ''*'' # b # sub_pair A B cs
      else a # sub_pair A B (b # cs))"
| "sub_pair A B cs = cs"

text \<open>The alternation \<open>sin|cos|tan|sqrt\<close> at the head of a string.\<close>

definition match_func :: "string \<Rightarrow> string option" where
  "match_func s =
     (if startswith s ''sin'' then Some ''sin''
      else if startswith s ''cos'' then Some ''cos''
      else if startswith s ''tan'' then Some ''tan''
      else if startswith s ''sqrt'' then Some ''sqrt''
      else None)"

text \<open>\<open>re.sub(r'(\d)(sin|cos|tan|sqrt)', r'\1*\2', s)\<close>.\<close>

fun sub_digit_func :: "string \<Rightarrow> string" where
  "sub_digit_func [] = []"
| "sub_digit_func (a # cs) =
     (if is_digit a
      then (case match_func cs of
              Some f \<Rightarrow> a # CHR ''*'' # f @ sub_digit_func (drop (length f) cs)
            | None \<Rightarrow> a # sub_digit_func cs)
      else a # sub_digit_func cs)"

section \<open>The interpreter: \<open>eval\<close> on arithmetic expressions\<close>

text \<open>
  Both components hand the prepared string to Python's \<open>eval\<close> with empty builtins
  and their context as the only names. The model covers the fragment of Python
  expressions built from decimal literals, names, the operators
  \<open>+ - * / // % **\<close>, parentheses and calls. On every other input (keywords, other
  operators, tuples, attribute access, signed exponents in literals, \<open>round\<close> with two
  arguments, the library functions away from their special values, \<open>**\<close> on floats)
  the model answers \<open>Unmodelled\<close> and says nothing about what Python does.
\<close>

subsection \<open>Tokens\<close>

datatype token =
  TInt int | TFloat pyfloat | TName string | TOp string | TLParen | TRParen | TComma

definition is_alpha :: "char \<Rightarrow> bool" where
  "is_alpha c = (c \<in> set ''abcdefghijklmnopqrstuvwxyzABCDEFGHIJKLMNOPQRSTUVWXYZ_'')"

definition is_word_char :: "char \<Rightarrow> bool" where
  "is_word_char c = (is_digit c \<or> is_alpha c \<or> c = CHR ''.'')"

text \<open>
  The input is cut into lexemes: maximal runs of letters, digits, underscores and dots;
  the two-character operators \<open>**\<close> and \<open>//\<close>; single other characters. Spaces and
  tabs separate lexemes and are dropped.
\<close>

definition flush :: "string \<Rightarrow> string list" where
  "flush acc = (if acc = [] then [] else [acc])"

definition single :: "char \<Rightarrow> string list" where
  "single c = (if c = CHR '' '' \<or> c = CHR 0x09 then [] else [[c]])"

fun lexemes :: "string \<Rightarrow> string \<Rightarrow> string list" where
  "lexemes acc [] = flush acc"
| "lexemes acc [c] =
     (if is_word_char c then flush (acc @ [c]) else flush acc @ single c)"
| "lexemes acc (c # d # cs) =
     (if is_word_char c then lexemes (acc @ [c]) (d # cs)
      else if c = CHR ''*'' \<and> d = CHR ''*'' then flush acc @ [''**''] @ lexemes [] cs
      else if c = CHR ''/'' \<and> d = CHR ''/'' then flush acc @ [''//''] @ lexemes [] cs
      else flush acc @ single c @ lexemes [] (d # cs))"

definition digit_val :: "char \<Rightarrow> nat" where
  "digit_val c = length (takeWhile (\<lambda>d. d \<noteq> c) ''0123456789'')"

definition nat_of_digits :: "string \<Rightarrow> nat" where
  "nat_of_digits ds = foldl (\<lambda>n c. 10 * n + digit_val c) 0 ds"

definition py_keywords :: "string list" where
  "py_keywords =
     [''False'', ''None'', ''True'', ''and'', ''as'', ''assert'', ''async'', ''await'',
      ''break'', ''class'', ''continue'', ''def'', ''del'', ''elif'', ''else'', ''except'',
      ''finally'', ''for'', ''from'', ''global'', ''if'', ''import'', ''in'', ''is'',
      ''lambda'', ''nonlocal'', ''not'', ''or'', ''pass'', ''raise'', ''return'', ''try'',
      ''while'', ''with'', ''yield'', ''__debug__'']"

text \<open>
  A number literal: digits, an optional fraction, an optional unsigned exponent. An
  integer literal has no leading zero unless it is zero; a float literal denotes the
  binary64 number nearest to its decimal value.
\<close>

definition number_token :: "string \<Rightarrow> pyexc + token" where
  "number_token w =
     (let ip = takeWhile is_digit w; r1 = dropWhile is_digit w;
          has_dot = (r1 \<noteq> [] \<and> hd r1 = CHR ''.'');
          fp = (if has_dot then takeWhile is_digit (tl r1) else []);
          r2 = (if has_dot then dropWhile is_digit (tl r1) else r1);
          has_exp = (r2 \<noteq> [] \<and> (hd r2 = CHR ''e'' \<or> hd r2 = CHR ''E''));
          ex = (if has_exp then takeWhile is_digit (tl r2) else []);
          r3 = (if has_exp then dropWhile is_digit (tl r2) else r2)
      in if r3 \<noteq> [] \<or> (ip = [] \<and> fp = []) \<or> (has_exp \<and> ex = []) \<or> 4300 < length w
         then Inl Unmodelled
         else if \<not> has_dot \<and> \<not> has_exp
         then (if hd ip = CHR ''0'' \<and> nat_of_digits ip \<noteq> 0
               then Inl (Raise SyntaxError
                      ''leading zeros in decimal integer literals are not permitted'')
               else Inr (TInt (int (nat_of_digits ip))))
         else Inr (TFloat (round64
                (of_nat (nat_of_digits (ip @ fp)) * 10 ^ nat_of_digits ex
                   / 10 ^ length fp))))"

definition classify :: "string \<Rightarrow> pyexc + token" where
  "classify w =
     (if w = ''('' then Inr TLParen
      else if w = '')'' then Inr TRParen
      else if w = '','' then Inr TComma
      else if w \<in> set [''+'', ''-'', ''*'', ''/'', ''//'', ''%'', ''**''] then Inr (TOp w)
      else if w = [] \<or> \<not> is_word_char (hd w) then Inl Unmodelled
      else if is_digit (hd w) \<or> hd w = CHR ''.'' then number_token w
      else if CHR ''.'' \<in> set w \<or> w \<in> set py_keywords then Inl Unmodelled
      else Inr (TName w))"

text \<open>
  The tokens of a string: \<open>Unmodelled\<close> as soon as one lexeme is outside the
  fragment, otherwise the first error, otherwise the tokens.
\<close>

fun collect :: "(pyexc + token) list \<Rightarrow> pyexc + token list" where
  "collect [] = Inr []"
| "collect (Inl e # rs) = Inl e"
| "collect (Inr t # rs) = (case collect rs of Inl e \<Rightarrow> Inl e | Inr ts \<Rightarrow> Inr (t # ts))"

definition tokenize :: "string \<Rightarrow> pyexc + token list" where
  "tokenize s =
     (let rs = map classify (lexemes [] s)
      in if Inl Unmodelled \<in> set rs then Inl Unmodelled else collect rs)"

subsection \<open>Syntax trees\<close>

datatype binop = Add | Sub | Mult | Div | FloorDiv | Mod | PowOp

datatype unop = UAdd | USub

datatype expr =
  Constant pyval
| Name string
| BinOp expr binop expr
| UnaryOp unop expr
| Call expr "expr list"

text \<open>
  An unexpected token is a syntax error, unless it is a comma or a prefix star, where
  Python may see a tuple or an unpacking.
\<close>

definition syntax_error :: "token list \<Rightarrow> pyexc" where
  "syntax_error ts =
     (case ts of
        TComma # r \<Rightarrow> Unmodelled
      | TOp w # r \<Rightarrow>
          if w = ''*'' \<or> w = ''**'' then Unmodelled else Raise SyntaxError ''invalid syntax''
      | _ \<Rightarrow> Raise SyntaxError ''invalid syntax'')"

text \<open>
  Python's grammar for the fragment, by recursive descent:
  \<^verbatim>\<open>
  sum:     sum ('+'|'-') term | term
  term:    term ('*'|'/'|'//'|'%') factor | factor
  factor:  ('+'|'-') factor | power
  power:   primary ['**' factor]
  primary: primary '(' [args] ')' | atom
  atom:    NAME | NUMBER | '(' sum ')'
  \<close>
  A goal names what is to be parsed next: a nonterminal, or the rest of a left-recursive
  rule with the tree built so far (for arguments: the callee and the arguments so far).
\<close>

datatype goal =
  GSum | GSumRest expr | GTerm | GTermRest expr | GFactor | GPower
| GPrimaryRest expr | GArgs expr "expr list" | GAtom

text \<open>
  The first argument bounds the depth of the descent; \<open>py_parse\<close> gives a bound that
  grows with the number of tokens, and answers \<open>Unmodelled\<close> should it not suffice.
\<close>

primrec parse :: "nat \<Rightarrow> goal \<Rightarrow> token list \<Rightarrow> pyexc + expr \<times> token list" where
  "parse 0 g ts = Inl Unmodelled"
| "parse (Suc n) g ts =
     (case g of
        GSum \<Rightarrow>
          (case parse n GTerm ts of Inl e \<Rightarrow> Inl e | Inr (l, r) \<Rightarrow> parse n (GSumRest l) r)
      | GSumRest l \<Rightarrow>
          (case ts of
             TOp w # r \<Rightarrow>
               if w = ''+'' \<or> w = ''-''
               then (case parse n GTerm r of
                       Inl e \<Rightarrow> Inl e
                     | Inr (x, r1) \<Rightarrow>
                         parse n (GSumRest (BinOp l (if w = ''+'' then Add else Sub) x)) r1)
               else Inr (l, ts)
           | _ \<Rightarrow> Inr (l, ts))
      | GTerm \<Rightarrow>
          (case parse n GFactor ts of Inl e \<Rightarrow> Inl e | Inr (l, r) \<Rightarrow> parse n (GTermRest l) r)
      | GTermRest l \<Rightarrow>
          (case ts of
             TOp w # r \<Rightarrow>
               if w = ''*'' \<or> w = ''/'' \<or> w = ''//'' \<or> w = ''%''
               then (case parse n GFactor r of
                       Inl e \<Rightarrow> Inl e
                     | Inr (x, r1) \<Rightarrow>
                         parse n
                           (GTermRest
                              (BinOp l (if w = ''*'' then Mult else if w = ''/'' then Div
                                        else if w = ''//'' then FloorDiv else Mod) x)) r1)
               else Inr (l, ts)
           | _ \<Rightarrow> Inr (l, ts))
      | GFactor \<Rightarrow>
          (case ts of
             TOp w # r \<Rightarrow>
               if w = ''-'' \<or> w = ''+''
               then (case parse n GFactor r of
                       Inl e \<Rightarrow> Inl e
                     | Inr (x, r1) \<Rightarrow>
                         Inr (UnaryOp (if w = ''-'' then USub else UAdd) x, r1))
               else parse n GPower ts
           | _ \<Rightarrow> parse n GPower ts)
      | GPower \<Rightarrow>
          (case parse n GAtom ts of
             Inl e \<Rightarrow> Inl e
           | Inr (a, r) \<Rightarrow>
               (case parse n (GPrimaryRest a) r of
                  Inl e \<Rightarrow> Inl e
                | Inr (p, r1) \<Rightarrow>
                    (case r1 of
                       TOp w # r2 \<Rightarrow>
                         if w = ''**''
                         then (case parse n GFactor r2 of
                                 Inl e \<Rightarrow> Inl e
                               | Inr (x, r3) \<Rightarrow> Inr (BinOp p PowOp x, r3))
                         else Inr (p, r1)
                     | _ \<Rightarrow> Inr (p, r1))))
      | GPrimaryRest f \<Rightarrow>
          (case ts of
             TLParen # r \<Rightarrow> parse n (GArgs f []) r
           | _ \<Rightarrow> Inr (f, ts))
      | GArgs f args \<Rightarrow>
          (case ts of
             TRParen # r \<Rightarrow> parse n (GPrimaryRest (Call f args)) r
           | _ \<Rightarrow>
               (case parse n GSum ts of
                  Inl e \<Rightarrow> Inl e
                | Inr (a, r) \<Rightarrow>
                    (case r of
                       TComma # r1 \<Rightarrow> parse n (GArgs f (args @ [a])) r1
                     | TRParen # r1 \<Rightarrow> parse n (GPrimaryRest (Call f (args @ [a]))) r1
                     | _ \<Rightarrow> Inl (syntax_error r))))
      | GAtom \<Rightarrow>
          (case ts of
             TInt i # r \<Rightarrow> Inr (Constant (VInt i), r)
           | TFloat d # r \<Rightarrow> Inr (Constant (VFloat d), r)
           | TName s # r \<Rightarrow> Inr (Name s, r)
           | TLParen # r \<Rightarrow>
               (case r of
                  TRParen # r1 \<Rightarrow> Inl Unmodelled
                | _ \<Rightarrow>
                    (case parse n GSum r of
                       Inl e \<Rightarrow> Inl e
                     | Inr (a, r1) \<Rightarrow>
                         (case r1 of
                            TRParen # r2 \<Rightarrow> Inr (a, r2)
                          | _ \<Rightarrow> Inl (syntax_error r1))))
           | _ \<Rightarrow> Inl (syntax_error ts)))"

definition py_parse :: "token list \<Rightarrow> pyexc + expr" where
  "py_parse ts =
     (case parse (8 * length ts + 8) GSum ts of
        Inl e \<Rightarrow> Inl e
      | Inr (a, r) \<Rightarrow> if r = [] then Inr a else Inl (syntax_error r))"

subsection \<open>Evaluation\<close>

definition type_error :: "string \<Rightarrow> pyexc + 'a" where
  "type_error m = Inl (Raise TypeError m)"

text \<open>\<open>float(v)\<close> for an operand of an arithmetic operation.\<close>

fun to_float :: "pyval \<Rightarrow> pyexc + pyfloat" where
  "to_float (VInt n) = int_to_float n"
| "to_float (VFloat d) = Inr d"
| "to_float (VFunc f) = type_error ''must be real number, not builtin_function_or_method''"

fun is_number :: "pyval \<Rightarrow> bool" where
  "is_number (VInt n) = True"
| "is_number (VFloat d) = True"
| "is_number (VFunc f) = False"

text \<open>
  Arithmetic on two floats. Division raises on a zero divisor; floor division,
  remainder and power of floats are outside the fragment.
\<close>

fun float_binop :: "binop \<Rightarrow> pyfloat \<Rightarrow> pyfloat \<Rightarrow> pyexc + pyval" where
  "float_binop Add x y = Inr (VFloat (float_add x y))"
| "float_binop Sub x y = Inr (VFloat (float_sub x y))"
| "float_binop Mult x y = Inr (VFloat (float_mul x y))"
| "float_binop Div x y =
     (if y = Fin 0 then Inl (Raise ZeroDivisionError ''float division by zero'')
      else Inr (VFloat (float_div x y)))"
| "float_binop FloorDiv x y = Inl Unmodelled"
| "float_binop Mod x y = Inl Unmodelled"
| "float_binop PowOp x y = Inl Unmodelled"

text \<open>
  Arithmetic on two ints is exact; \<open>/\<close> gives the float nearest to the quotient;
  \<open>//\<close> and \<open>%\<close> round toward minus infinity, as \<open>div\<close> and \<open>mod\<close> do.
\<close>

fun int_binop :: "binop \<Rightarrow> int \<Rightarrow> int \<Rightarrow> pyexc + pyval" where
  "int_binop Add a b = Inr (VInt (a + b))"
| "int_binop Sub a b = Inr (VInt (a - b))"
| "int_binop Mult a b = Inr (VInt (a * b))"
| "int_binop Div a b =
     (if b = 0 then Inl (Raise ZeroDivisionError ''division by zero'')
      else case round64 (of_int a / of_int b) of
             Fin q \<Rightarrow> Inr (VFloat (Fin q))
           | _ \<Rightarrow> Inl (Raise OverflowError ''integer division result too large for a float''))"
| "int_binop FloorDiv a b =
     (if b = 0 then Inl (Raise ZeroDivisionError ''integer division or modulo by zero'')
      else Inr (VInt (a div b)))"
| "int_binop Mod a b =
     (if b = 0 then Inl (Raise ZeroDivisionError ''integer modulo by zero'')
      else Inr (VInt (a mod b)))"
| "int_binop PowOp a b =
     (if 0 \<le> b then Inr (VInt (a ^ nat b))
      else if a = 0
      then Inl (Raise ZeroDivisionError ''0.0 cannot be raised to a negative power'')
      else Inl Unmodelled)"

text \<open>
  A binary operation: on two ints the int operation; on a function object a type
  error; otherwise both operands are converted to float, the left one first, and the
  float operation applies.
\<close>

definition py_binop :: "binop \<Rightarrow> pyval \<Rightarrow> pyval \<Rightarrow> pyexc + pyval" where
  "py_binop op a b =
     (if \<not> is_number a \<or> \<not> is_number b then type_error ''unsupported operand type(s)''
      else case (a, b) of
             (VInt m, VInt n) \<Rightarrow> int_binop op m n
           | _ \<Rightarrow>
               (case to_float a of
                  Inl e \<Rightarrow> Inl e
                | Inr x \<Rightarrow>
                    (case to_float b of
                       Inl e \<Rightarrow> Inl e
                     | Inr y \<Rightarrow> float_binop op x y)))"

fun py_unop :: "unop \<Rightarrow> pyval \<Rightarrow> pyexc + pyval" where
  "py_unop op (VFunc f) = type_error ''bad operand type for unary operator''"
| "py_unop UAdd v = Inr v"
| "py_unop USub (VInt n) = Inr (VInt (- n))"
| "py_unop USub (VFloat d) = Inr (VFloat (float_neg d))"

text \<open>\<open>a < b\<close> on numbers: ints and floats compare by their exact values.\<close>

fun py_less :: "pyval \<Rightarrow> pyval \<Rightarrow> pyexc + bool" where
  "py_less (VInt m) (VInt n) = Inr (m < n)"
| "py_less (VInt m) (VFloat y) = Inr (float_less (Fin (of_int m)) y)"
| "py_less (VFloat x) (VInt n) = Inr (float_less x (Fin (of_int n)))"
| "py_less (VFloat x) (VFloat y) = Inr (float_less x y)"
| "py_less a b = type_error ''< not supported between these instances''"

text \<open>
  \<open>min\<close> and \<open>max\<close> over the remaining arguments: the running result is replaced by an
  item that is smaller (for \<open>max\<close>: larger) than it.
\<close>

fun min_loop :: "pyval \<Rightarrow> pyval list \<Rightarrow> pyexc + pyval" where
  "min_loop res [] = Inr res"
| "min_loop res (item # items) =
     (case py_less item res of
        Inl e \<Rightarrow> Inl e
      | Inr lt \<Rightarrow> min_loop (if lt then item else res) items)"

fun max_loop :: "pyval \<Rightarrow> pyval list \<Rightarrow> pyexc + pyval" where
  "max_loop res [] = Inr res"
| "max_loop res (item # items) =
     (case py_less res item of
        Inl e \<Rightarrow> Inl e
      | Inr gt \<Rightarrow> max_loop (if gt then item else res) items)"

fun float_abs :: "pyfloat \<Rightarrow> pyfloat" where
  "float_abs (Fin q) = Fin \<bar>q\<bar>"
| "float_abs NaN = NaN"
| "float_abs x = PInf"

text \<open>
  The functions of \<open>math\<close> at their special values: a domain error at an infinity
  (for \<open>sqrt\<close>: at a negative number), NaN at NaN, and the exact values at zero. Their
  values elsewhere are outside the fragment.
\<close>

fun math_sqrt :: "pyfloat \<Rightarrow> pyexc + pyval" where
  "math_sqrt NaN = Inr (VFloat NaN)"
| "math_sqrt PInf = Inr (VFloat PInf)"
| "math_sqrt NInf = Inl (Raise ValueError ''math domain error'')"
| "math_sqrt (Fin q) =
     (if q < 0 then Inl (Raise ValueError ''math domain error'')
      else if q = 0 then Inr (VFloat (Fin 0))
      else Inl Unmodelled)"

fun math_trig :: "builtin \<Rightarrow> pyfloat \<Rightarrow> pyexc + pyval" where
  "math_trig f NaN = Inr (VFloat NaN)"
| "math_trig f (Fin q) =
     (if q = 0 then Inr (VFloat (Fin (if f = B_cos then 1 else 0))) else Inl Unmodelled)"
| "math_trig f x = Inl (Raise ValueError ''math domain error'')"

text \<open>The builtins on their argument values.\<close>

fun builtin_abs :: "pyval list \<Rightarrow> pyexc + pyval" where
  "builtin_abs [VInt n] = Inr (VInt \<bar>n\<bar>)"
| "builtin_abs [VFloat d] = Inr (VFloat (float_abs d))"
| "builtin_abs args = type_error ''bad operand or argument count for abs()''"

fun round_float :: "pyfloat \<Rightarrow> pyexc + pyval" where
  "round_float (Fin q) = Inr (VInt (round_half_even q))"
| "round_float NaN = Inl (Raise ValueError ''cannot convert float NaN to integer'')"
| "round_float d = Inl (Raise OverflowError ''cannot convert float infinity to integer'')"

fun builtin_round :: "pyval list \<Rightarrow> pyexc + pyval" where
  "builtin_round [VInt n] = Inr (VInt n)"
| "builtin_round [VFloat d] = round_float d"
| "builtin_round [a, b] = Inl Unmodelled"
| "builtin_round args = type_error ''bad operand or argument count for round()''"

fun builtin_min :: "pyval list \<Rightarrow> pyexc + pyval" where
  "builtin_min [] = type_error ''min expected at least 1 argument, got 0''"
| "builtin_min [a] = type_error ''object is not iterable''"
| "builtin_min (a # args) = min_loop a args"

fun builtin_max :: "pyval list \<Rightarrow> pyexc + pyval" where
  "builtin_max [] = type_error ''max expected at least 1 argument, got 0''"
| "builtin_max [a] = type_error ''object is not iterable''"
| "builtin_max (a # args) = max_loop a args"

fun builtin_math :: "(pyfloat \<Rightarrow> pyexc + pyval) \<Rightarrow> pyval list \<Rightarrow> pyexc + pyval" where
  "builtin_math f [a] = (case to_float a of Inl e \<Rightarrow> Inl e | Inr d \<Rightarrow> f d)"
| "builtin_math f args = type_error ''function takes exactly one argument''"

fun call_builtin :: "builtin \<Rightarrow> pyval list \<Rightarrow> pyexc + pyval" where
  "call_builtin B_abs args = builtin_abs args"
| "call_builtin B_round args = builtin_round args"
| "call_builtin B_min args = builtin_min args"
| "call_builtin B_max args = builtin_max args"
| "call_builtin B_sqrt args = builtin_math math_sqrt args"
| "call_builtin f args = builtin_math (math_trig f) args"

fun py_call :: "pyval \<Rightarrow> pyval list \<Rightarrow> pyexc + pyval" where
  "py_call (VFunc f) args = call_builtin f args"
| "py_call (VInt n) args = type_error '''int' object is not callable''"
| "py_call (VFloat d) args = type_error '''float' object is not callable''"

text \<open>
  Evaluation of a tree in a context: operands left to right, the callee before its
  arguments, the first exception ending the evaluation.
\<close>

fun eval_expr :: "pycontext \<Rightarrow> expr \<Rightarrow> pyexc + pyval"
  and eval_args :: "pycontext \<Rightarrow> expr list \<Rightarrow> pyexc + pyval list"
where
  "eval_expr ctx (Constant v) = Inr v"
| "eval_expr ctx (Name s) =
     (case ctx s of
        None \<Rightarrow> Inl (Raise NameError (''name '' @ [CHR 0x27] @ s @ [CHR 0x27] @ '' is not defined''))
      | Some v \<Rightarrow> Inr v)"
| "eval_expr ctx (BinOp l op r) =
     (case eval_expr ctx l of
        Inl e \<Rightarrow> Inl e
      | Inr a \<Rightarrow>
          (case eval_expr ctx r of
             Inl e \<Rightarrow> Inl e
           | Inr b \<Rightarrow> py_binop op a b))"
| "eval_expr ctx (UnaryOp op e) =
     (case eval_expr ctx e of Inl x \<Rightarrow> Inl x | Inr a \<Rightarrow> py_unop op a)"
| "eval_expr ctx (Call f args) =
     (case eval_expr ctx f of
        Inl e \<Rightarrow> Inl e
      | Inr fv \<Rightarrow>
          (case eval_args ctx args of
             Inl e \<Rightarrow> Inl e
           | Inr vs \<Rightarrow> py_call fv vs))"
| "eval_args ctx [] = Inr []"
| "eval_args ctx (a # as) =
     (case eval_expr ctx a of
        Inl e \<Rightarrow> Inl e
      | Inr v \<Rightarrow>
          (case eval_args ctx as of
             Inl e \<Rightarrow> Inl e
           | Inr vs \<Rightarrow> Inr (v # vs)))"

text \<open>Compiling a source string to a tree, and \<open>eval(source, {"__builtins__": {}}, ctx)\<close>.\<close>

definition py_compile :: "string \<Rightarrow> pyexc + expr" where
  "py_compile source =
     (case tokenize source of
        Inl e \<Rightarrow> Inl e
      | Inr ts \<Rightarrow> py_parse ts)"

definition py_eval :: "string \<Rightarrow> pycontext \<Rightarrow> pyexc + pyval" where
  "py_eval source ctx =
     (case py_compile source of
        Inl e \<Rightarrow> Inl e
      | Inr tree \<Rightarrow> eval_expr ctx tree)"

section \<open>The calculator: preparing and validating an expression\<close>

record calculator =
  last_result :: pyval
  math_context :: pycontext

text \<open>\<open>Calculator._prepare_expression\<close>.\<close>

definition prepare_expression :: "string \<Rightarrow> string" where
  "prepare_expression expression =
     (let expr = strip expression;
          expr = replace_char (CHR ''^'') ''**'' expr;
          expr = replace_char division_sign ''/'' (replace_char times_sign ''*'' expr);
          expr = sub_pair is_digit (\<lambda>c. c = CHR ''('') expr;
          expr = sub_pair (\<lambda>c. c = CHR '')'') is_digit expr;
          expr = sub_pair (\<lambda>c. c = CHR '')'') (\<lambda>c. c = CHR ''('') expr
      in expr)"

text \<open>The character class of \<open>allowed_pattern\<close>.\<close>

definition allowed_char :: "char \<Rightarrow> bool" where
  "allowed_char c =
     (is_digit c \<or> is_space c \<or> c \<in> set ''+-*/^().,piePIesqrtabsroundminmax'')"

text \<open>The loop of \<open>_validate_expression\<close> over the characters, with its counter.\<close>

fun paren_scan :: "int \<Rightarrow> string \<Rightarrow> pyexc + int" where
  "paren_scan paren_count [] = Inr paren_count"
| "paren_scan paren_count (c # cs) =
     (let n = (if c = CHR ''('' then paren_count + 1
               else if c = CHR '')'' then paren_count - 1
               else paren_count)
      in if n < 0
         then Inl (Raise ValueError ''Unbalanced parentheses: extra closing parenthesis'')
         else paren_scan n cs)"

text \<open>
  \<open>Calculator._validate_expression\<close>. The pattern \<open>^[...]+$\<close> matches exactly the
  non-empty strings of allowed characters (a final newline is itself in the class).
\<close>

definition validate_expression :: "string \<Rightarrow> pyexc + bool" where
  "validate_expression expression =
     (if \<not> (expression \<noteq> [] \<and> list_all allowed_char expression)
      then Inl (Raise ValueError (''Invalid characters in expression: ''
                  @ filter (\<lambda>c. \<not> allowed_char c) expression))
      else case paren_scan 0 expression of
             Inl e \<Rightarrow> Inl e
           | Inr paren_count \<Rightarrow>
               if paren_count \<noteq> 0
               then Inl (Raise ValueError ''Unbalanced parentheses: missing closing parenthesis'')
               else Inr True)"

section \<open>The calculator: evaluating an expression\<close>

text \<open>The values of \<open>math.pi\<close> and \<open>math.e\<close>.\<close>

definition math_pi :: pyfloat where
  "math_pi = Fin (884279719003555 / 281474976710656)"

definition math_e :: pyfloat where
  "math_e = Fin (6121026514868073 / 2251799813685248)"

text \<open>\<open>Calculator.__init__\<close>.\<close>

definition Calculator_init :: calculator where
  "Calculator_init =
     \<lparr> last_result = VInt 0,
       math_context =
         [''abs'' \<mapsto> VFunc B_abs, ''round'' \<mapsto> VFunc B_round, ''min'' \<mapsto> VFunc B_min,
          ''max'' \<mapsto> VFunc B_max, ''sqrt'' \<mapsto> VFunc B_sqrt, ''pi'' \<mapsto> VFloat math_pi,
          ''e'' \<mapsto> VFloat math_e] \<rparr>"

text \<open>
  The body of the \<open>try\<close> block of \<open>evaluate_expression\<close>, up to the value that is
  stored and returned: the evaluation, the type check, and the check for NaN and
  infinity (\<open>math.isnan\<close> converts an int to float first, and raises if it does not
  fit).
\<close>

definition try_body :: "pycontext \<Rightarrow> string \<Rightarrow> pyexc + pyfloat" where
  "try_body ctx prepared =
     (case py_eval prepared ctx of
        Inl e \<Rightarrow> Inl e
      | Inr result \<Rightarrow>
          if \<not> is_number result
          then Inl (Raise ValueError ''Expression did not evaluate to a number'')
          else (case to_float result of
                  Inl e \<Rightarrow> Inl e
                | Inr d \<Rightarrow>
                    if isnan d \<or> isinf d
                    then Inl (Raise ValueError ''Result is undefined (infinity or NaN)'')
                    else Inr d))"

text \<open>
  The \<open>except\<close> clauses, in their order. The last one catches every exception, also
  the two \<open>ValueError\<close>s raised inside the \<open>try\<close> block.
\<close>

fun except_clauses :: "pyexc \<Rightarrow> pyexc" where
  "except_clauses (Raise ZeroDivisionError m) = Raise ValueError ''Cannot divide by zero''"
| "except_clauses (Raise SyntaxError m) = Raise ValueError ''Invalid expression syntax''"
| "except_clauses (Raise c m) = Raise ValueError (''Could not evaluate expression: '' @ m)"
| "except_clauses Unmodelled = Unmodelled"

text \<open>
  \<open>Calculator.evaluate_expression\<close>: the result (the returned float, or the
  exception raised) and the calculator afterwards.
\<close>

definition evaluate_expression ::
  "calculator \<Rightarrow> string \<Rightarrow> (pyexc + pyfloat) \<times> calculator" where
  "evaluate_expression self expression =
     (if expression = [] \<or> strip expression = []
      then (Inl (Raise ValueError ''Empty expression''), self)
      else let prepared = prepare_expression expression
           in case validate_expression expression of
                Inl e \<Rightarrow> (Inl e, self)
              | Inr ok \<Rightarrow>
                  (case try_body (math_context self) prepared of
                     Inl e \<Rightarrow> (Inl (except_clauses e), self)
                   | Inr d \<Rightarrow> (Inr d, self\<lparr>last_result := VFloat d\<rparr>)))"

section \<open>The grapher: parsing a function string\<close>

text \<open>\<open>Grapher.parse_function\<close>.\<close>

definition parse_function :: "string \<Rightarrow> string" where
  "parse_function func_string =
     (let expression = strip func_string;
          expression = (if startswith (lower expression) ''f(x)''
                        then strip (lstrip_char (CHR ''='') (drop 4 expression))
                        else expression);
          expression = replace_char (CHR ''^'') ''**'' expression;
          expression = sub_pair is_digit (\<lambda>c. c = CHR ''x'') expression;
          expression = sub_digit_func expression;
          expression = sub_pair (\<lambda>c. c = CHR ''x'') (\<lambda>c. c = CHR ''('') expression;
          expression = sub_pair (\<lambda>c. c = CHR '')'') (\<lambda>c. c = CHR ''x'' \<or> c = CHR ''('') expression;
          expression = sub_pair (\<lambda>c. c = CHR '')'') is_digit expression
      in expression)"

section \<open>The grapher: evaluating and sampling\<close>

record grapher =
  g_math_context :: pycontext

text \<open>\<open>Grapher.__init__\<close>.\<close>

definition Grapher_init :: grapher where
  "Grapher_init =
     \<lparr> g_math_context =
         [''sin'' \<mapsto> VFunc B_sin, ''cos'' \<mapsto> VFunc B_cos, ''tan'' \<mapsto> VFunc B_tan,
          ''sqrt'' \<mapsto> VFunc B_sqrt, ''abs'' \<mapsto> VFunc B_abs, ''pi'' \<mapsto> VFloat math_pi,
          ''e'' \<mapsto> VFloat math_e] \<rparr>"

text \<open>The classes named in the \<open>except\<close> clause of \<open>Grapher.evaluate\<close>.\<close>

definition caught :: "exc_class \<Rightarrow> bool" where
  "caught c = (c \<in> set [ValueError, ZeroDivisionError, OverflowError, SyntaxError, NameError])"

text \<open>
  \<open>Grapher.evaluate\<close>: \<open>Inr (Some y)\<close> for a returned float, \<open>Inr None\<close> for a
  returned \<open>None\<close>, \<open>Inl\<close> for an exception that leaves the method.
\<close>

definition evaluate :: "grapher \<Rightarrow> string \<Rightarrow> pyval \<Rightarrow> pyexc + pyfloat option" where
  "evaluate self expression x_value =
     (let context = (g_math_context self)(''x'' \<mapsto> x_value);
          body = (case py_eval expression context of
                    Inl e \<Rightarrow> Inl e
                  | Inr result \<Rightarrow>
                      if \<not> is_number result then Inr None
                      else (case to_float result of
                              Inl e \<Rightarrow> Inl e
                            | Inr d \<Rightarrow>
                                if \<not> isnan d \<and> \<not> isinf d then Inr (Some d) else Inr None))
      in case body of
           Inl (Raise c m) \<Rightarrow> if caught c then Inr None else Inl (Raise c m)
         | Inl Unmodelled \<Rightarrow> Inl Unmodelled
         | Inr r \<Rightarrow> Inr r)"

text \<open>
  The loop of \<open>generate_plot_data\<close> over \<open>range(num_points)\<close>: the lists
  \<open>x_values\<close> and \<open>y_values\<close> it builds, or the exception that ends it.
\<close>

fun sample_loop ::
  "grapher \<Rightarrow> string \<Rightarrow> pyval \<Rightarrow> pyval \<Rightarrow> int list \<Rightarrow> pyval list \<Rightarrow> pyfloat list
     \<Rightarrow> pyexc + pyval list \<times> pyfloat list" where
  "sample_loop self expression x_min step [] x_values y_values = Inr (x_values, y_values)"
| "sample_loop self expression x_min step (i # is) x_values y_values =
     (case py_binop Mult (VInt i) step of
        Inl e \<Rightarrow> Inl e
      | Inr d \<Rightarrow>
          (case py_binop Add x_min d of
             Inl e \<Rightarrow> Inl e
           | Inr x \<Rightarrow>
               (case evaluate self expression x of
                  Inl e \<Rightarrow> Inl e
                | Inr None \<Rightarrow> sample_loop self expression x_min step is x_values y_values
                | Inr (Some y) \<Rightarrow>
                    sample_loop self expression x_min step is
                      (x_values @ [x]) (y_values @ [y]))))"

text \<open>\<open>range(n)\<close>.\<close>

definition range :: "int \<Rightarrow> int list" where
  "range n = map int [0 ..< nat n]"

text \<open>\<open>Grapher.generate_plot_data\<close>.\<close>

definition generate_plot_data ::
  "grapher \<Rightarrow> string \<Rightarrow> pyval \<Rightarrow> pyval \<Rightarrow> int \<Rightarrow> pyexc + pyval list \<times> pyfloat list" where
  "generate_plot_data self func_string x_min x_max num_points =
     (let expression = parse_function func_string
      in case py_binop Sub x_max x_min of
           Inl e \<Rightarrow> Inl e
         | Inr w \<Rightarrow>
             (case py_binop Div w (VInt (num_points - 1)) of
                Inl e \<Rightarrow> Inl e
              | Inr step \<Rightarrow>
                  (case sample_loop self expression x_min step (range num_points) [] [] of
                     Inl e \<Rightarrow> Inl e
                   | Inr (x_values, y_values) \<Rightarrow>
                       if x_values = []
                       then Inl (Raise ValueError
                              (''Could not evaluate function: '' @ func_string))
                       else Inr (x_values, y_values))))"

section \<open>Notions used in the statements\<close>

text \<open>A string has two adjacent characters, the first in class \<open>A\<close>, the second in \<open>B\<close>.\<close>

fun adjacent :: "(char \<Rightarrow> bool) \<Rightarrow> (char \<Rightarrow> bool) \<Rightarrow> string \<Rightarrow> bool" where
  "adjacent A B (a # b # cs) = ((A a \<and> B b) \<or> adjacent A B (b # cs))"
| "adjacent A B cs = False"

text \<open>A string has a digit immediately followed by \<open>sin\<close>, \<open>cos\<close>, \<open>tan\<close> or \<open>sqrt\<close>.\<close>

fun digit_before_func :: "string \<Rightarrow> bool" where
  "digit_before_func [] = False"
| "digit_before_func (a # cs) = ((is_digit a \<and> match_func cs \<noteq> None) \<or> digit_before_func cs)"


fun binops_of :: "expr \<Rightarrow> binop set"
  and binops_of_args :: "expr list \<Rightarrow> binop set"
where
  "binops_of (Constant v) = {}"
| "binops_of (Name s) = {}"
| "binops_of (BinOp l op r) = insert op (binops_of l \<union> binops_of r)"
| "binops_of (UnaryOp op e) = binops_of e"
| "binops_of (Call f args) = binops_of f \<union> binops_of_args args"
| "binops_of_args [] = {}"
| "binops_of_args (a # as) = binops_of a \<union> binops_of_args as"


section \<open>Facts about rounding\<close>

text \<open>
  Two facts about \<open>round64\<close> carry the evaluations below: an integer of less than 54
  bits is a binary64 number, and a value from \<open>2\<^sup>1\<^sup>0\<^sup>2\<^sup>4\<close> on rounds to infinity.
\<close>

lemma ilog2_ge1:
  assumes "1 \<le> q"
  shows "pow2 (ilog2 q) \<le> q" "q < pow2 (ilog2 q + 1)" "0 \<le> ilog2 q"
proof -
  let ?m = "\<lfloor>q\<rfloor>"
  have m: "0 < ?m" using assms by simp
  from bitlen_bounds[OF m] have b: "2 ^ nat (bitlen ?m - 1) \<le> ?m" "?m < 2 ^ nat (bitlen ?m)" by auto
  have bl: "1 \<le> bitlen ?m" using m by (simp add: bitlen_def floorlog_def)
  have e: "ilog2 q = bitlen ?m - 1" using assms by (simp add: ilog2_def)
  show "0 \<le> ilog2 q" using bl e by simp
  have "(of_int (2 ^ nat (bitlen ?m - 1)) :: rat) \<le> of_int ?m" using b(1) by (simp only: of_int_le_iff)
  also have "\<dots> \<le> q" by simp
  finally show "pow2 (ilog2 q) \<le> q" using bl e by (simp add: pow2_def)
  have "?m + 1 \<le> 2 ^ nat (bitlen ?m)" using b(2) by simp
  then have "(of_int (?m + 1) :: rat) \<le> of_int (2 ^ nat (bitlen ?m))" by (simp only: of_int_le_iff)
  moreover have "q < of_int (?m + 1)" by linarith
  ultimately show "q < pow2 (ilog2 q + 1)" using bl e by (simp add: pow2_def)
qed

lemma round_half_even_of_int: "round_half_even (of_int m) = m"
  by (simp add: round_half_even_def)

lemma pow2_powi: "pow2 k = 2 powi k"
  by (simp add: pow2_def power_int_def field_simps)

lemma pow2_mono: "i \<le> j \<Longrightarrow> pow2 i \<le> pow2 j"
  unfolding pow2_powi by (intro power_int_increasing) auto

lemma pow2_add: "pow2 (i + j) = pow2 i * pow2 j"
  unfolding pow2_powi by (simp add: power_int_add)

lemma pow2_pos: "0 < pow2 k"
  unfolding pow2_powi by simp

lemma round64_pos_int:
  assumes "0 < n" "n < 2 ^ 53"
  shows "round64 (of_int n) = Fin (of_int n)"
proof -
  let ?q = "of_int n :: rat"
  have q1: "1 \<le> ?q" using assms(1) by simp
  note L = ilog2_ge1[OF q1]
  have q53: "?q < 2 ^ 53" using assms(2) by (metis of_int_less_iff of_int_numeral of_int_power)
  have L53: "ilog2 ?q < 53"
  proof (rule ccontr)
    assume "\<not> ilog2 ?q < 53"
    then have "pow2 53 \<le> pow2 (ilog2 ?q)" by (intro pow2_mono) simp
    then have "pow2 53 \<le> ?q" using L(1) by simp
    then show False using q53 by (simp add: pow2_def)
  qed
  define k where "k = nat (52 - ilog2 ?q)"
  have e: "max (ilog2 ?q) (- 1022) - 52 = - int k" using L(3) L53 by (simp add: k_def)
  have pk: "pow2 (- int k) = 1 / 2 ^ k" by (simp add: pow2_def)
  have d: "?q / pow2 (- int k) = of_int (n * 2 ^ k)" by (simp add: pk)
  have v: "of_int (round_half_even (?q / pow2 (- int k))) * pow2 (- int k) = ?q"
    unfolding d round_half_even_of_int by (simp add: pk)
  have big: "\<not> pow2 1024 \<le> ?q" using q53 by (simp add: pow2_def)
  have a: "\<bar>?q\<bar> = ?q" using assms(1) by simp
  show ?thesis using assms(1) big
    by (simp add: round64_def Let_def a e v del: of_int_mult of_int_power)
qed

lemma round64_neg: "round64 (- q) = float_neg (round64 q)"
  by (simp add: round64_def Let_def)

lemma round64_int:
  assumes "\<bar>n\<bar> < 2 ^ 53"
  shows "round64 (of_int n) = Fin (of_int n)"
proof (cases "n = 0")
  case True
  then show ?thesis by (simp add: round64_def)
next
  case False
  show ?thesis
  proof (cases "0 < n")
    case True
    then show ?thesis using assms round64_pos_int by simp
  next
    case neg: False
    then have "0 < - n" "- n < 2 ^ 53" using False assms by auto
    from round64_pos_int[OF this] have "round64 (- of_int n) = Fin (- of_int n)" by simp
    then show ?thesis using round64_neg[of "- of_int n"] by simp
  qed
qed

lemma round64_numeral:
  "(numeral k :: int) < 9007199254740992 \<Longrightarrow> round64 (numeral k) = Fin (numeral k)"
  "(numeral k :: int) < 9007199254740992 \<Longrightarrow> round64 (- numeral k) = Fin (- numeral k)"
  "round64 1 = Fin 1" "round64 (- 1) = Fin (- 1)" "round64 0 = Fin 0"
  using round64_int[of "numeral k"] round64_int[of "- numeral k"] round64_int[of 1] round64_int[of "-1"]
  by (simp_all add: round64_def)

lemma round64_overflow:
  assumes "pow2 1024 \<le> q"
  shows "round64 q = PInf"
proof -
  have "pow2 0 \<le> pow2 1024" by (rule pow2_mono) simp
  then have q1: "1 \<le> q" using assms by (simp add: pow2_def)
  note L = ilog2_ge1[OF q1]
  have L1024: "1024 \<le> ilog2 q"
  proof (rule ccontr)
    assume "\<not> 1024 \<le> ilog2 q"
    then have "pow2 (ilog2 q + 1) \<le> pow2 1024" by (intro pow2_mono) simp
    then show False using L(2) assms by linarith
  qed
  define e where "e = ilog2 q - 52"
  have e: "max (ilog2 q) (- 1022) - 52 = e" using L1024 by (simp add: e_def)
  have split: "pow2 (ilog2 q) = pow2 52 * pow2 e"
    using pow2_add[of 52 e] by (simp add: e_def)
  have p52: "pow2 52 = of_int (2 ^ 52)" by (simp add: pow2_def)
  have "pow2 52 * pow2 e \<le> q" using L(1) split by simp
  then have "pow2 52 \<le> q / pow2 e" using pow2_pos[of e] by (simp add: pos_le_divide_eq)
  then have "(2 ^ 52 :: int) \<le> \<lfloor>q / pow2 e\<rfloor>" unfolding p52 by (simp only: le_floor_iff)
  moreover have "\<lfloor>x\<rfloor> \<le> round_half_even x" for x by (simp add: round_half_even_def Let_def)
  ultimately have "(2 ^ 52 :: int) \<le> round_half_even (q / pow2 e)" by (rule order_trans)
  then have "(of_int (2 ^ 52) :: rat) \<le> of_int (round_half_even (q / pow2 e))" by (simp only: of_int_le_iff)
  then have "pow2 52 * pow2 e \<le> of_int (round_half_even (q / pow2 e)) * pow2 e"
    unfolding p52 using pow2_pos[of e] by (simp only: mult_le_cancel_right_pos)
  then have "pow2 (ilog2 q) \<le> of_int (round_half_even (q / pow2 e)) * pow2 e" by (simp only: split)
  moreover have "pow2 1024 \<le> pow2 (ilog2 q)" using L1024 by (rule pow2_mono)
  ultimately have v: "pow2 1024 \<le> of_int (round_half_even (q / pow2 e)) * pow2 e" by (rule order_trans[rotated])
  have a: "\<bar>q\<bar> = q" "0 < q" "q \<noteq> 0" using q1 by simp_all
  show ?thesis unfolding round64_def Let_def a e using v a by simp
qed

lemma pow2_1024_le: "pow2 1024 \<le> 10 ^ 999"
proof -
  have "pow2 1024 \<le> pow2 1030" by (rule pow2_mono) simp
  also have "pow2 1030 = (2 ^ 10) ^ 103" by (simp add: pow2_def flip: power_mult)
  also have "\<dots> \<le> ((10::rat) ^ 4) ^ 103" by (rule power_mono) simp_all
  also have "\<dots> = 10 ^ 412" by (simp flip: power_mult)
  also have "\<dots> \<le> 10 ^ 999" by (rule power_increasing) simp_all
  finally show ?thesis .
qed

lemma round64_1e999: "round64 (10 ^ 999) = PInf"
  by (rule round64_overflow) (rule pow2_1024_le)

section \<open>Evaluating the model on concrete inputs\<close>

lemmas str_defs =
  strip_def is_space_def lower_def lower_char_def upper_chars_def lower_chars_def
  startswith_def lstrip_char_def replace_char_def is_digit_def match_func_def
  times_sign_def division_sign_def

lemmas eval_defs =
  py_eval_def py_binop_def type_error_def int_to_float_def round64_numeral Let_def

lemmas calc_defs =
  evaluate_expression_def prepare_expression_def validate_expression_def allowed_char_def
  try_body_def str_defs eval_defs

lemmas graph_defs =
  evaluate_def parse_function_def Grapher_init_def caught_def str_defs eval_defs

text \<open>The trees of the prepared strings that the examples evaluate.\<close>

lemma compile_2_plus_3_times_4:
  "py_compile ''2+3*4'' =
     Inr (BinOp (Constant (VInt 2)) Add (BinOp (Constant (VInt 3)) Mult (Constant (VInt 4))))"
  by code_simp





lemma compile_5_div_0:
  "py_compile ''5/0'' = Inr (BinOp (Constant (VInt 5)) Div (Constant (VInt 0)))"
  by code_simp

text \<open>The calculator on the examples.\<close>

lemma eval_2_plus_3_times_4:
  "evaluate_expression self ''2+3*4'' = (Inr (Fin 14), self\<lparr>last_result := VFloat (Fin 14)\<rparr>)"
  by (simp add: calc_defs compile_2_plus_3_times_4)





lemma eval_5_div_0:
  "evaluate_expression self ''5/0'' = (Inl (Raise ValueError ''Cannot divide by zero''), self)"
  by (simp add: calc_defs compile_5_div_0)

text \<open>The two ways in which \<open>evaluate_expression\<close> returns.\<close>

lemma evaluate_expression_cases:
  "(\<exists>e. evaluate_expression self expression = (Inl e, self))
   \<or> (\<exists>d. evaluate_expression self expression = (Inr d, self\<lparr>last_result := VFloat d\<rparr>)
          \<and> try_body (math_context self) (prepare_expression expression) = Inr d)"
  by (simp add: evaluate_expression_def Let_def split: sum.splits)

section \<open>Precedence and associativity (C1)\<close>





section \<open>Division by zero (C3)\<close>

lemma compile_10_pow_999_div_0:
  "py_compile ''10**999/0.0'' =
     Inr (BinOp (BinOp (Constant (VInt 10)) PowOp (Constant (VInt 999))) Div
            (Constant (VFloat (Fin 0))))"
  by code_simp

lemma int_to_float_1e999:
  "int_to_float (10 ^ 999) = Inl (Raise OverflowError ''int too large to convert to float'')"
  by (simp add: int_to_float_def round64_1e999 del: power_numeral)

lemma eval_10_pow_999_div_0:
  "eval_expr ctx
     (BinOp (BinOp (Constant (VInt 10)) PowOp (Constant (VInt 999))) Div
        (Constant (VFloat (Fin 0))))
   = Inl (Raise OverflowError ''int too large to convert to float'')"
  by (simp add: py_binop_def int_to_float_1e999 del: power_numeral)

lemma prepare_10_pow_999_div_0: "prepare_expression ''10^999/0.0'' = ''10**999/0.0''"
  by (simp add: prepare_expression_def str_defs)

lemma validate_10_pow_999_div_0: "validate_expression ''10^999/0.0'' = Inr True"
  by (simp add: validate_expression_def allowed_char_def str_defs)

text \<open>
  The claim fails where the left operand is an int too large for a float and the right
  operand is the float \<open>0.0\<close>: in \<open>10^999/0.0\<close> the right operand of \<open>/\<close> evaluates to
  exactly 0, and the evaluation fails with the overflow of the conversion, reported as
  a generic error and not as a division by zero.
\<close>

theorem division_by_zero_counterexample:
  "py_compile (prepare_expression ''10^999/0.0'') =
     Inr (BinOp (BinOp (Constant (VInt 10)) PowOp (Constant (VInt 999))) Div
            (Constant (VFloat (Fin 0))))
   \<and> eval_expr (math_context Calculator_init) (Constant (VFloat (Fin 0))) = Inr (VFloat (Fin 0))
   \<and> fst (evaluate_expression Calculator_init ''10^999/0.0'') =
       Inl (Raise ValueError
              ''Could not evaluate expression: int too large to convert to float'')
   \<and> fst (evaluate_expression Calculator_init ''10^999/0.0'') \<noteq>
       Inl (Raise ValueError ''Cannot divide by zero'')"
proof -
  have e: "py_eval ''10**999/0.0'' ctx
             = Inl (Raise OverflowError ''int too large to convert to float'')" for ctx
    unfolding py_eval_def compile_10_pow_999_div_0
    by (simp only: eval_10_pow_999_div_0 sum.case)
  show ?thesis
    by (simp add: evaluate_expression_def try_body_def Let_def strip_def is_space_def
          prepare_10_pow_999_div_0 validate_10_pow_999_div_0 compile_10_pow_999_div_0 e)
qed

lemma int_to_float_zero: "int_to_float 0 = Inr (Fin 0)"
  by (simp add: int_to_float_def round64_def)

lemma division_raises:
  assumes "(b = VInt 0 \<and> is_number a) \<or> (b = VFloat (Fin 0) \<and> (\<exists>d. to_float a = Inr d))"
  shows "\<exists>m. py_binop Div a b = Inl (Raise ZeroDivisionError m)"
proof (cases a)
  case (VInt m)
  then show ?thesis using assms by (auto simp: py_binop_def int_to_float_zero)
next
  case (VFloat d)
  then show ?thesis using assms by (auto simp: py_binop_def int_to_float_zero)
next
  case (VFunc f)
  then show ?thesis using assms by (auto simp: type_error_def)
qed

lemma eval_division_raises:
  assumes "eval_expr ctx l = Inr a" and "eval_expr ctx r = Inr b"
    and "(b = VInt 0 \<and> is_number a) \<or> (b = VFloat (Fin 0) \<and> (\<exists>d. to_float a = Inr d))"
  shows "\<exists>m. eval_expr ctx (BinOp l Div r) = Inl (Raise ZeroDivisionError m)"
  using division_raises [OF assms(3)] assms(1,2) by simp

lemma eval_5_div_0_grapher: "evaluate g ''5/0'' x = Inr None"
  by (simp add: evaluate_def py_eval_def compile_5_div_0 py_binop_def caught_def)

text \<open>
  C3, amended. When the operands of a division evaluate, the left one to a number and
  the right one to exactly 0 (the int \<open>0\<close>, or the float \<open>0.0\<close> with a left operand
  that is a float or an int that fits a float), the division raises
  \<open>ZeroDivisionError\<close>. When that division is the whole expression, the calculator
  raises its \<open>ValueError\<close> "Cannot divide by zero" and \<open>Grapher.evaluate\<close> returns
  \<open>None\<close>; so they do on \<open>5/0\<close>.
\<close>

theorem division_by_zero:
  assumes "eval_expr ctx l = Inr a" and "eval_expr ctx r = Inr b"
    and "(b = VInt 0 \<and> is_number a) \<or> (b = VFloat (Fin 0) \<and> (\<exists>d. to_float a = Inr d))"
  shows "(\<exists>m. eval_expr ctx (BinOp l Div r) = Inl (Raise ZeroDivisionError m))
    \<and> (ctx = math_context self \<and> strip expression \<noteq> []
          \<and> validate_expression expression = Inr True
          \<and> py_compile (prepare_expression expression) = Inr (BinOp l Div r)
        \<longrightarrow> evaluate_expression self expression
              = (Inl (Raise ValueError ''Cannot divide by zero''), self))
    \<and> (ctx = (g_math_context g)(''x'' \<mapsto> x_value) \<and> py_compile source = Inr (BinOp l Div r)
        \<longrightarrow> evaluate g source x_value = Inr None)
    \<and> evaluate_expression self ''5/0'' = (Inl (Raise ValueError ''Cannot divide by zero''), self)
    \<and> evaluate g ''5/0'' x_value = Inr None"
proof -
  from eval_division_raises [OF assms]
  obtain m where m: "eval_expr ctx (BinOp l Div r) = Inl (Raise ZeroDivisionError m)" ..
  have calc: "evaluate_expression self expression
                = (Inl (Raise ValueError ''Cannot divide by zero''), self)"
    if "ctx = math_context self" "strip expression \<noteq> []"
       "validate_expression expression = Inr True"
       "py_compile (prepare_expression expression) = Inr (BinOp l Div r)"
  proof -
    have "expression \<noteq> []" using that(2) by (auto simp: strip_def)
    then show ?thesis
      using that m by (simp add: evaluate_expression_def try_body_def py_eval_def Let_def)
  qed
  have graph: "evaluate g source x_value = Inr None"
    if "ctx = (g_math_context g)(''x'' \<mapsto> x_value)" "py_compile source = Inr (BinOp l Div r)"
    using that m by (simp add: evaluate_def py_eval_def caught_def Let_def)
  show ?thesis using m calc graph eval_5_div_0 eval_5_div_0_grapher by blast
qed

theorem division_by_zero_witness:
  "eval_expr (math_context Calculator_init) (Constant (VInt 5)) = Inr (VInt 5)
   \<and> eval_expr (math_context Calculator_init) (Constant (VInt 0)) = Inr (VInt 0)
   \<and> is_number (VInt 5)
   \<and> (\<exists>m. eval_expr (math_context Calculator_init)
             (BinOp (Constant (VInt 5)) Div (Constant (VInt 0)))
           = Inl (Raise ZeroDivisionError m))
   \<and> evaluate_expression Calculator_init ''5/0''
       = (Inl (Raise ValueError ''Cannot divide by zero''), Calculator_init)
   \<and> evaluate Grapher_init ''5/0'' (VInt 3) = Inr None"
proof -
  have h1: "eval_expr (math_context Calculator_init) (Constant (VInt 5)) = Inr (VInt 5)"
    by simp
  have h2: "eval_expr (math_context Calculator_init) (Constant (VInt 0)) = Inr (VInt 0)"
    by simp
  have h3: "(VInt 0 = VInt 0 \<and> is_number (VInt 5))
            \<or> (VInt 0 = VFloat (Fin 0) \<and> (\<exists>d. to_float (VInt 5) = Inr d))"
    by simp
  from division_by_zero [OF h1 h2 h3, of Calculator_init "''5/0''" Grapher_init "VInt 3" "''5/0''"]
  show ?thesis using h1 h2 by simp
qed

section \<open>Finite results (C4)\<close>


lemma classify_1e999: "classify ''1e999'' = Inr (TFloat PInf)"
  by (simp add: classify_def number_token_def Let_def is_word_char_def is_digit_def is_alpha_def
        nat_of_digits_def digit_val_def round64_1e999 del: power_numeral)





lemma lexemes_1e999: "lexemes [] ''1e999'' = [''1e999'']"
  by code_simp

lemma parse_inf: "py_parse [TFloat PInf] = Inr (Constant (VFloat PInf))"
  by code_simp

lemma compile_1e999: "py_compile ''1e999'' = Inr (Constant (VFloat PInf))"
  unfolding py_compile_def tokenize_def lexemes_1e999
  by (simp add: classify_1e999 parse_inf)


lemma eval_1e999:
  "evaluate_expression self ''1e999'' =
     (Inl (Raise ValueError
             ''Could not evaluate expression: Result is undefined (infinity or NaN)''), self)"
  by (simp add: calc_defs compile_1e999)








lemma compile_x: "py_compile ''x'' = Inr (Name ''x'')"
  by code_simp


lemma range_2: "range 2 = [0, 1]"
  by code_simp





section \<open>Sampling (C5, C6)\<close>

lemma parse_function_2_call: "parse_function ''2(x+1)'' = ''2(x+1)''"
  by (simp add: parse_function_def str_defs)

lemma compile_2_call:
  "py_compile ''2(x+1)'' =
     Inr (Call (Constant (VInt 2)) [BinOp (Name ''x'') Add (Constant (VInt 1))])"
  by code_simp

lemma evaluate_2_call:
  "evaluate g ''2(x+1)'' (VFloat (Fin 0)) =
     Inl (Raise TypeError '''int' object is not callable'')"
  by (simp add: evaluate_def caught_def eval_defs compile_2_call)

text \<open>
  C5. \<open>Grapher.evaluate\<close> turns five classes of exceptions into \<open>None\<close>; an
  evaluation that fails with another one ends the whole sample. On \<open>2(x+1)\<close>, where
  \<open>parse_function\<close> inserts no \<open>*\<close>, the call of the int \<open>2\<close> raises \<open>TypeError\<close> at
  the first point, and \<open>generate_plot_data\<close> raises it too instead of skipping the
  point.
\<close>

theorem generate_plot_data_type_error:
  "parse_function ''2(x+1)'' = ''2(x+1)''
   \<and> evaluate Grapher_init ''2(x+1)'' (VFloat (Fin 0)) =
       Inl (Raise TypeError '''int' object is not callable'')
   \<and> generate_plot_data Grapher_init ''2(x+1)'' (VInt 0) (VInt 1) 2 =
       Inl (Raise TypeError '''int' object is not callable'')"
  by (simp add: generate_plot_data_def range_2 parse_function_2_call evaluate_2_call
        py_binop_def int_to_float_def round64_numeral)

text \<open>
  The claim fails: \<open>generate_plot_data\<close> checks neither the interval nor the number
  of points. On the interval from 1 to 0 it samples \<open>x\<close> at 1 and at 0.
\<close>

theorem invalid_range_counterexample:
  "generate_plot_data Grapher_init ''x'' (VInt 1) (VInt 0) 2 =
     Inr ([VFloat (Fin 1), VFloat (Fin 0)], [Fin 1, Fin 0])"
  by (simp add: generate_plot_data_def range_2 evaluate_def parse_function_def caught_def
        str_defs eval_defs compile_x)

lemma parse_function_x: "parse_function ''x'' = ''x''"
  by (simp add: parse_function_def str_defs)

lemma evaluate_x: "evaluate g ''x'' (VFloat (Fin q)) = Inr (Some (Fin q))"
  by (simp add: evaluate_def caught_def py_eval_def compile_x)

lemma range_nonpositive: "n \<le> 0 \<Longrightarrow> range n = []"
  by (simp add: range_def)

lemma sample_x_two_points:
  assumes "\<bar>a\<bar> < 2 ^ 52" and "\<bar>b\<bar> < 2 ^ 52"
  shows "generate_plot_data g ''x'' (VInt a) (VInt b) 2 =
           Inr ([VFloat (Fin (of_int a)), VFloat (Fin (of_int b))],
                [Fin (of_int a), Fin (of_int b)])"
proof -
  have ba: "\<bar>b - a\<bar> < 2 ^ 53" using assms by simp
  have a53: "\<bar>a\<bar> < 2 ^ 53" and b53: "\<bar>b\<bar> < 2 ^ 53" using assms by simp_all
  let ?d = "of_int b - of_int a :: rat"
  have rd: "round64 ?d = Fin ?d" using round64_int [OF ba] by simp
  have ra: "round64 (of_int a) = Fin (of_int a)" by (rule round64_int [OF a53])
  have rb: "round64 (of_int b) = Fin (of_int b)" by (rule round64_int [OF b53])
  have sub: "py_binop Sub (VInt b) (VInt a) = Inr (VInt (b - a))"
    by (simp add: py_binop_def)
  have step: "py_binop Div (VInt (b - a)) (VInt (2 - 1)) = Inr (VFloat (Fin ?d))"
    using rd by (simp add: py_binop_def)
  have x0: "py_binop Mult (VInt 0) (VFloat (Fin ?d)) = Inr (VFloat (Fin 0))"
    by (simp add: py_binop_def int_to_float_def round64_numeral)
  have x0': "py_binop Add (VInt a) (VFloat (Fin 0)) = Inr (VFloat (Fin (of_int a)))"
    using ra by (simp add: py_binop_def int_to_float_def)
  have x1: "py_binop Mult (VInt 1) (VFloat (Fin ?d)) = Inr (VFloat (Fin ?d))"
    using rd by (simp add: py_binop_def int_to_float_def round64_numeral)
  have x1': "py_binop Add (VInt a) (VFloat (Fin ?d)) = Inr (VFloat (Fin (of_int b)))"
    using ra rb by (simp add: py_binop_def int_to_float_def)
  show ?thesis
    unfolding generate_plot_data_def parse_function_x range_2 Let_def
    by (simp only: sub step sample_loop.simps x0 x0' x1 x1' evaluate_x sum.case option.case
          prod.case append_Nil append_Cons list.simps if_False)
qed

text \<open>
  C6, amended. \<open>generate_plot_data\<close> has no check of its arguments. With one point it
  fails in the computation of the step, a division by \<open>num_points - 1 = 0\<close>; with no
  point or a negative number of points it samples nothing and fails as on an empty
  series. An interval with \<open>x_min \<ge> x_max\<close> is sampled like any other: for any two
  ints \<open>a\<close> and \<open>b\<close> below \<open>2\<^sup>5\<^sup>2\<close> in absolute value, in any order, two points of
  \<open>x\<close> are \<open>a\<close> and \<open>b\<close>.
\<close>

theorem generate_plot_data_unchecked_range:
  "(py_binop Sub x_max x_min = Inr w
      \<longrightarrow> (\<exists>m. generate_plot_data g func_string x_min x_max 1
                 = Inl (Raise ZeroDivisionError m)))
   \<and> (num_points \<le> 0 \<and> py_binop Sub x_max x_min = Inr w
        \<and> py_binop Div w (VInt (num_points - 1)) = Inr step
      \<longrightarrow> generate_plot_data g func_string x_min x_max num_points
            = Inl (Raise ValueError (''Could not evaluate function: '' @ func_string)))
   \<and> (\<bar>a\<bar> < 2 ^ 52 \<and> \<bar>b\<bar> < 2 ^ 52
      \<longrightarrow> generate_plot_data g ''x'' (VInt a) (VInt b) 2
            = Inr ([VFloat (Fin (of_int a)), VFloat (Fin (of_int b))],
                   [Fin (of_int a), Fin (of_int b)]))"
proof -
  have one: "\<exists>m. generate_plot_data g func_string x_min x_max 1
                 = Inl (Raise ZeroDivisionError m)"
    if w: "py_binop Sub x_max x_min = Inr w"
  proof -
    have "is_number w" using w
      by (cases x_max; cases x_min)
         (auto simp: py_binop_def type_error_def float_sub_def split: sum.splits)
    then have "VInt 0 = VInt 0 \<and> is_number w \<or>
               VInt 0 = VFloat (Fin 0) \<and> (\<exists>d. to_float w = Inr d)" by simp
    from division_raises [OF this]
    obtain m where "py_binop Div w (VInt 0) = Inl (Raise ZeroDivisionError m)" ..
    then show ?thesis using w by (simp add: generate_plot_data_def)
  qed
  have none: "generate_plot_data g func_string x_min x_max num_points
            = Inl (Raise ValueError (''Could not evaluate function: '' @ func_string))"
    if "num_points \<le> 0" "py_binop Sub x_max x_min = Inr w"
       "py_binop Div w (VInt (num_points - 1)) = Inr step"
    using that by (simp add: generate_plot_data_def range_nonpositive)
  show ?thesis using one none sample_x_two_points by blast
qed

theorem generate_plot_data_unchecked_range_witness:
  "py_binop Sub (VInt 10) (VInt (- 10)) = Inr (VInt 20)
   \<and> (\<exists>m. generate_plot_data Grapher_init ''x'' (VInt (- 10)) (VInt 10) 1
            = Inl (Raise ZeroDivisionError m))
   \<and> py_binop Div (VInt 20) (VInt (0 - 1)) = Inr (VFloat (Fin (- 20)))
   \<and> generate_plot_data Grapher_init ''x'' (VInt (- 10)) (VInt 10) 0
       = Inl (Raise ValueError ''Could not evaluate function: x'')
   \<and> generate_plot_data Grapher_init ''x'' (VInt 3) (VInt 3) 2
       = Inr ([VFloat (Fin 3), VFloat (Fin 3)], [Fin 3, Fin 3])"
proof -
  have s: "py_binop Sub (VInt 10) (VInt (- 10)) = Inr (VInt 20)"
    by (simp add: py_binop_def)
  have d: "py_binop Div (VInt 20) (VInt (0 - 1)) = Inr (VFloat (Fin (- 20)))"
    by (simp add: py_binop_def round64_numeral)
  from generate_plot_data_unchecked_range
    [of "VInt 10" "VInt (- 10)" "VInt 20" Grapher_init "''x''" 0 "VFloat (Fin (- 20))" 3 3]
  show ?thesis using s d by simp
qed

section \<open>The state of the calculator (C7)\<close>

text \<open>
  The claim fails: the calculator keeps the last result. A fresh calculator holds the
  int \<open>0\<close>, and after evaluating \<open>2+3*4\<close> it holds \<open>14.0\<close>.
\<close>

theorem last_result_counterexample:
  "last_result Calculator_init = VInt 0
   \<and> last_result (snd (evaluate_expression Calculator_init ''2+3*4'')) = VFloat (Fin 14)
   \<and> snd (evaluate_expression Calculator_init ''2+3*4'') \<noteq> Calculator_init"
proof -
  have "last_result Calculator_init = VInt 0" by (simp add: Calculator_init_def)
  moreover have "last_result (snd (evaluate_expression Calculator_init ''2+3*4''))
                   = VFloat (Fin 14)"
    by (simp add: eval_2_plus_3_times_4)
  ultimately show ?thesis by auto
qed

text \<open>
  C7, amended. \<open>evaluate_expression\<close> never changes the environment
  \<open>math_context\<close>; when it fails it changes no field, and when it succeeds it changes
  one field only, \<open>last_result\<close>, which becomes the float it returns.
\<close>

theorem evaluate_expression_frame:
  assumes "evaluate_expression self expression = (r, self')"
  shows "math_context self' = math_context self
    \<and> (\<forall>e. r = Inl e \<longrightarrow> self' = self)
    \<and> (\<forall>d. r = Inr d \<longrightarrow> self' = self\<lparr>last_result := VFloat d\<rparr>)"
  using assms evaluate_expression_cases [of self expression] by auto

theorem evaluate_expression_frame_witness:
  "evaluate_expression Calculator_init ''2+3*4''
     = (Inr (Fin 14), Calculator_init\<lparr>last_result := VFloat (Fin 14)\<rparr>)
   \<and> math_context (Calculator_init\<lparr>last_result := VFloat (Fin 14)\<rparr>)
       = math_context Calculator_init
   \<and> evaluate_expression (Calculator_init\<lparr>last_result := VFloat (Fin 14)\<rparr>) ''5/0''
       = (Inl (Raise ValueError ''Cannot divide by zero''),
          Calculator_init\<lparr>last_result := VFloat (Fin 14)\<rparr>)"
proof -
  let ?c = "Calculator_init\<lparr>last_result := VFloat (Fin 14)\<rparr>"
  have a: "evaluate_expression Calculator_init ''2+3*4''
             = (Inr (Fin 14), snd (evaluate_expression Calculator_init ''2+3*4''))"
    by (simp add: eval_2_plus_3_times_4)
  have b: "evaluate_expression ?c ''5/0''
             = (Inl (Raise ValueError ''Cannot divide by zero''),
                snd (evaluate_expression ?c ''5/0''))"
    by (simp add: eval_5_div_0)
  from evaluate_expression_frame [OF a] evaluate_expression_frame [OF b] a b
  show ?thesis by simp
qed

section \<open>The header of a function string (C8)\<close>

lemma compile_plus_1: "py_compile ''+1'' = Inr (UnaryOp UAdd (Constant (VInt 1)))"
  by code_simp

text \<open>
  C8. \<open>parse_function\<close> removes a leading \<open>f(x)\<close> whether or not an \<open>=\<close> follows:
  \<open>f(x)+1\<close> becomes \<open>+1\<close>, which evaluates to 1 at every \<open>x\<close>, as \<open>f(x)=+1\<close> does.
\<close>

theorem parse_function_header_without_equals:
  "parse_function ''f(x)+1'' = ''+1''
   \<and> parse_function ''f(x)=+1'' = ''+1''
   \<and> evaluate Grapher_init (parse_function ''f(x)+1'') (VInt 3) = Inr (Some (Fin 1))"
proof -
  have a: "parse_function ''f(x)+1'' = ''+1''"
    by (simp add: parse_function_def str_defs)
  have b: "parse_function ''f(x)=+1'' = ''+1''"
    by (simp add: parse_function_def str_defs)
  have "evaluate Grapher_init ''+1'' (VInt 3) = Inr (Some (Fin 1))"
    by (simp add: evaluate_def caught_def eval_defs compile_plus_1)
  with a b show ?thesis by simp
qed

section \<open>What an evaluation can reach (C9)\<close>








section \<open>A failed evaluation leaves the calculator as it was (C10)\<close>

text \<open>
  C10. Whenever \<open>evaluate_expression\<close> raises, the calculator, and with it
  \<open>last_result\<close>, is what it was before the call.
\<close>

theorem evaluate_expression_failure_keeps_last_result:
  assumes "evaluate_expression self expression = (Inl e, self')"
  shows "self' = self"
  using assms evaluate_expression_cases [of self expression] by auto

theorem evaluate_expression_failure_keeps_last_result_witness:
  "evaluate_expression (Calculator_init\<lparr>last_result := VFloat (Fin 14)\<rparr>) ''5/0''
     = (Inl (Raise ValueError ''Cannot divide by zero''),
        Calculator_init\<lparr>last_result := VFloat (Fin 14)\<rparr>)
   \<and> last_result (snd (evaluate_expression
         (Calculator_init\<lparr>last_result := VFloat (Fin 14)\<rparr>) ''5/0'')) = VFloat (Fin 14)"
proof -
  let ?self = "Calculator_init\<lparr>last_result := VFloat (Fin 14)\<rparr>"
  have h: "evaluate_expression ?self ''5/0''
             = (Inl (Raise ValueError ''Cannot divide by zero''),
                snd (evaluate_expression ?self ''5/0''))"
    by (simp add: eval_5_div_0)
  from evaluate_expression_failure_keeps_last_result [OF h]
  have "snd (evaluate_expression ?self ''5/0'') = ?self" .
  with h show ?thesis by simp
qed

end
